theory Spec2Isabelle
  imports Main "HOL-Library.AList" "HOL-Library.Char_ord" "HOL-Library.List_Lexorder"
    "HOL-Library.Product_Lexorder" "HOL-Library.Multiset"
begin

section \<open>Values and option descriptors\<close>

text \<open>
  The Python values that occur as keyword arguments, defaults and attribute values in
  \<^verbatim>\<open>commands.py\<close>: \<^verbatim>\<open>None\<close>, booleans, integers, strings, and named
  callables such as the builtin \<^verbatim>\<open>int\<close> passed as \<^verbatim>\<open>type=int\<close>. The string object
  \<^verbatim>\<open>argparse.SUPPRESS\<close>, which the parser library recognises by identity, is a value of
  its own: a string with the same characters is another object.
\<close>

datatype pyval = VNone | VBool bool | VInt int | VStr string | VCallable string | VSuppress

text \<open>
  \<^verbatim>\<open>class Option\<close>: \<^verbatim>\<open>__init__(self, *args, **kwargs)\<close> stores both unchanged.
  Keyword arguments are kept as an association list in the order the source writes them.
\<close>

record Option_obj =
  args :: "string list"
  kwargs :: "(string \<times> pyval) list"

text \<open>All flag names (positional arguments of the descriptors) of an option sequence.\<close>

definition option_flags :: "Option_obj list \<Rightarrow> string list" where
  "option_flags opts = concat (map args opts)"

section \<open>Shell: option construction\<close>

type_synonym namespace_ctx = "(string \<times> pyval) list"

text \<open>
  \<^verbatim>\<open>Shell.__init__(banner=None, make_context=None, use_ipython=True, use_bpython=False)\<close>.
  The context factory is a callable without arguments; its result may differ from call to
  call, so it is a function of the number of calls made before.
\<close>

record Shell =
  banner :: string
  use_ipython :: bool
  use_bpython :: bool
  make_context :: "nat \<Rightarrow> namespace_ctx"

definition Shell_get_options :: "Shell \<Rightarrow> Option_obj list" where
  "Shell_get_options self =
     [\<lparr>args = [''--no-ipython''],
       kwargs = [(''action'', VStr ''store_true''),
                 (''dest'', VStr ''no_ipython''),
                 (''default'', VBool (\<not> use_ipython self))]\<rparr>,
      \<lparr>args = [''--bpython''],
       kwargs = [(''action'', VStr ''store_true''),
                 (''dest'', VStr ''bpython''),
                 (''default'', VBool (\<not> use_bpython self))]\<rparr>]"

section \<open>Server: option construction\<close>

text \<open>
  \<^verbatim>\<open>Server.__init__(host='127.0.0.1', port=5000, use_debugger=True, use_reloader=True,
  threaded=False, processes=1, passthrough_errors=False, **options)\<close>.
\<close>

record Server =
  port :: int
  host :: string
  use_debugger :: bool
  use_reloader :: bool
  server_options :: "(string \<times> pyval) list"
  threaded :: bool
  processes :: int
  passthrough_errors :: bool

definition Server_get_options :: "Server \<Rightarrow> Option_obj list" where
  "Server_get_options self =
     (let options =
        [\<lparr>args = [''-t'', ''--host''],
          kwargs = [(''dest'', VStr ''host''), (''default'', VStr (host self))]\<rparr>,
         \<lparr>args = [''-p'', ''--port''],
          kwargs = [(''dest'', VStr ''port''), (''type'', VCallable ''int''),
                    (''default'', VInt (port self))]\<rparr>,
         \<lparr>args = [''--threaded''],
          kwargs = [(''dest'', VStr ''threaded''), (''action'', VStr ''store_true''),
                    (''default'', VBool (threaded self))]\<rparr>,
         \<lparr>args = [''--processes''],
          kwargs = [(''dest'', VStr ''processes''), (''type'', VCallable ''int''),
                    (''default'', VInt (processes self))]\<rparr>,
         \<lparr>args = [''--passthrough-errors''],
          kwargs = [(''action'', VStr ''store_true''), (''dest'', VStr ''passthrough_errors''),
                    (''default'', VBool (passthrough_errors self))]\<rparr>];
      options1 =
        (if use_debugger self
         then options @
           [\<lparr>args = [''-d'', ''--no-debug''],
             kwargs = [(''action'', VStr ''store_false''), (''dest'', VStr ''use_debugger''),
                       (''default'', VBool (use_debugger self))]\<rparr>]
         else options @
           [\<lparr>args = [''-d'', ''--debug''],
             kwargs = [(''action'', VStr ''store_true''), (''dest'', VStr ''use_debugger''),
                       (''default'', VBool (use_debugger self))]\<rparr>]);
      options2 =
        (if use_reloader self
         then options1 @
           [\<lparr>args = [''-r'', ''--no-reload''],
             kwargs = [(''action'', VStr ''store_false''), (''dest'', VStr ''use_reloader''),
                       (''default'', VBool (use_reloader self))]\<rparr>]
         else options1 @
           [\<lparr>args = [''-r'', ''--reload''],
             kwargs = [(''action'', VStr ''store_true''), (''dest'', VStr ''use_reloader''),
                       (''default'', VBool (use_reloader self))]\<rparr>])
      in options2)"

text \<open>
  An option sequence exposes the flag pair \<open>short\<close>/\<open>long\<close> with action \<open>act\<close> bound to
  \<open>dest\<close> when one of its descriptors has exactly these two names and these keywords.
\<close>

definition has_flag_option :: "Option_obj list \<Rightarrow> string \<Rightarrow> string \<Rightarrow> string \<Rightarrow> string \<Rightarrow> bool" where
  "has_flag_option opts short long act dst =
     list_ex (\<lambda>opt. args opt = [short, long]
                  \<and> map_of (kwargs opt) ''action'' = Some (VStr act)
                  \<and> map_of (kwargs opt) ''dest'' = Some (VStr dst)) opts"

section \<open>Errors\<close>

text \<open>
  Exceptions are values. \<open>ArgumentError\<close> carries the conflicting option strings,
  \<open>SystemExit\<close> the exit status, \<open>UserError\<close> stands for any exception raised by code
  supplied from outside (a \<^verbatim>\<open>run\<close> method of a subclass).
\<close>

datatype error =
    ArgumentError "string list"
  | ValueError
  | TypeError
  | IndexError
  | AttributeError string
  | NotImplementedError
  | SystemExit int
  | UserError string

section \<open>The argument parser\<close>

text \<open>
  \<^verbatim>\<open>Command.create_parser\<close> drives \<^verbatim>\<open>argparse.ArgumentParser\<close>, which is not part
  of the repository. The part of the library that \<^verbatim>\<open>create_parser\<close> reaches is modelled
  here, with the signatures of the action classes of Python 2.7: the constructor with its
  automatic \<^verbatim>\<open>-h/--help\<close> action, \<^verbatim>\<open>add_argument\<close> with destination inference, the
  action registry, the keywords each action class takes, the checks on \<^verbatim>\<open>nargs\<close>,
  \<^verbatim>\<open>const\<close>, \<^verbatim>\<open>type\<close> and \<^verbatim>\<open>choices\<close>, the default conflict handler
  (\<^verbatim>\<open>conflict_handler='error'\<close>), and \<^verbatim>\<open>parse_args\<close> on an empty argument list.
  A positional argument is taken as required, as it is with the default \<^verbatim>\<open>nargs\<close>. A
  callable passed as \<^verbatim>\<open>action\<close> is taken to have the signature of \<^verbatim>\<open>argparse.Action\<close>.
\<close>

datatype action_class = Registered string | Custom string

record Action =
  option_strings :: "string list"
  dest :: pyval
  action_kind :: action_class
  nargs :: pyval
  default :: pyval
  type_func :: pyval
  required :: bool

record ArgumentParser =
  prog :: string
  description :: string
  actions :: "Action list"
  option_string_actions :: "(string \<times> Action) list"

definition prefix_char :: char where
  "prefix_char = CHR ''-''"

text \<open>Python truth value of a keyword argument.\<close>

fun truthy :: "pyval \<Rightarrow> bool" where
  "truthy VNone = False"
| "truthy (VBool b) = b"
| "truthy (VInt i) = (i \<noteq> 0)"
| "truthy (VStr s) = (s \<noteq> [])"
| "truthy (VCallable f) = True"
| "truthy VSuppress = True"

text \<open>\<^verbatim>\<open>kwargs.get(key)\<close>, with an absent key and \<^verbatim>\<open>None\<close> both read as \<^verbatim>\<open>None\<close>.\<close>

definition kw_get :: "(string \<times> pyval) list \<Rightarrow> string \<Rightarrow> pyval" where
  "kw_get kw key = (case map_of kw key of None \<Rightarrow> VNone | Some v \<Rightarrow> v)"

text \<open>The names in the \<^verbatim>\<open>'action'\<close> registry.\<close>

definition registered_actions :: "string list" where
  "registered_actions =
     [''store'', ''store_const'', ''store_true'', ''store_false'', ''append'',
      ''append_const'', ''count'', ''help'', ''version'', ''parsers'']"

text \<open>\<^verbatim>\<open>_pop_action_class\<close> followed by the \<^verbatim>\<open>callable\<close> test of \<^verbatim>\<open>add_argument\<close>.\<close>

definition pop_action_class :: "(string \<times> pyval) list \<Rightarrow> error + action_class" where
  "pop_action_class kw =
     (case kw_get kw ''action'' of
        VNone \<Rightarrow> Inr (Registered ''store'')
      | VStr a \<Rightarrow> if a \<in> set registered_actions then Inr (Registered a) else Inl ValueError
      | VCallable c \<Rightarrow> Inr (Custom c)
      | _ \<Rightarrow> Inl ValueError)"

text \<open>
  The keywords the constructor of each action class takes besides \<^verbatim>\<open>option_strings\<close>
  and \<^verbatim>\<open>dest\<close>, and those among them that have no default.
\<close>

definition class_keywords :: "action_class \<Rightarrow> string list" where
  "class_keywords kind =
     (if kind \<in> {Registered ''store_const'', Registered ''append_const''}
        then [''const'', ''default'', ''required'', ''help'', ''metavar'']
      else if kind \<in> {Registered ''store_true'', Registered ''store_false'', Registered ''count''}
        then [''default'', ''required'', ''help'']
      else if kind = Registered ''help'' then [''default'', ''help'']
      else if kind = Registered ''version'' then [''version'', ''default'', ''help'']
      else if kind = Registered ''parsers'' then [''prog'', ''parser_class'', ''help'', ''metavar'']
      else [''nargs'', ''const'', ''default'', ''type'', ''choices'', ''required'', ''help'',
            ''metavar''])"

definition class_required_keywords :: "action_class \<Rightarrow> string list" where
  "class_required_keywords kind =
     (if kind \<in> {Registered ''store_const'', Registered ''append_const''} then [''const'']
      else if kind = Registered ''parsers'' then [''prog'', ''parser_class'']
      else [])"

text \<open>The default each action class gives to \<^verbatim>\<open>default\<close> when the keyword is absent.\<close>

definition class_default :: "action_class \<Rightarrow> pyval" where
  "class_default kind =
     (if kind = Registered ''store_true'' then VBool False
      else if kind = Registered ''store_false'' then VBool True
      else if kind = Registered ''help'' \<or> kind = Registered ''version'' then VSuppress
      else VNone)"

text \<open>
  \<^verbatim>\<open>action.nargs\<close> after construction: the keyword for the classes that take it, the
  value the class fixes otherwise.
\<close>

definition class_nargs :: "action_class \<Rightarrow> (string \<times> pyval) list \<Rightarrow> pyval" where
  "class_nargs kind kw =
     (if ''nargs'' \<in> set (class_keywords kind) then kw_get kw ''nargs''
      else if kind = Registered ''parsers'' then VStr ''A...''
      else VInt 0)"

text \<open>\<^verbatim>\<open>nargs == 0\<close> in Python: true for the integer 0 and for \<^verbatim>\<open>False\<close>.\<close>

definition equals_zero :: "pyval \<Rightarrow> bool" where
  "equals_zero v = (v = VInt 0 \<or> v = VBool False)"

text \<open>
  \<^verbatim>\<open>_get_optional_kwargs\<close>: every option string must start with the prefix character;
  the destination is the \<^verbatim>\<open>dest\<close> keyword or is inferred from the first long option
  string (else the first option string), stripped of leading prefix characters, with
  \<^verbatim>\<open>-\<close> replaced by \<^verbatim>\<open>_\<close>.
\<close>

fun check_option_strings :: "string list \<Rightarrow> error + unit" where
  "check_option_strings [] = Inr ()"
| "check_option_strings (s # ss) =
     (case s of
        [] \<Rightarrow> Inl IndexError
      | c # _ \<Rightarrow> if c \<noteq> prefix_char then Inl ValueError else check_option_strings ss)"

definition is_long_option :: "string \<Rightarrow> bool" where
  "is_long_option s = (length s > 1 \<and> s ! 1 = prefix_char)"

definition infer_dest :: "string list \<Rightarrow> error + pyval" where
  "infer_dest strs =
     (let long_option_strings = filter is_long_option strs;
          dest_option_string =
            (if long_option_strings \<noteq> [] then hd long_option_strings else hd strs);
          d = dropWhile (\<lambda>c. c = prefix_char) dest_option_string
      in if d = [] then Inl ValueError
         else Inr (VStr (map (\<lambda>c. if c = CHR ''-'' then CHR ''_'' else c) d)))"

definition get_optional_kwargs ::
  "string list \<Rightarrow> (string \<times> pyval) list \<Rightarrow> error + (string list \<times> pyval)" where
  "get_optional_kwargs strs kw =
     (case check_option_strings strs of
        Inl e \<Rightarrow> Inl e
      | Inr _ \<Rightarrow>
          (case kw_get kw ''dest'' of
             VNone \<Rightarrow> (case infer_dest strs of Inl e \<Rightarrow> Inl e | Inr d \<Rightarrow> Inr (strs, d))
           | d \<Rightarrow> Inr (strs, d)))"

text \<open>
  \<^verbatim>\<open>_get_positional_kwargs(dest, **kwargs)\<close>: the single name is the destination, the
  keyword \<^verbatim>\<open>required\<close> is refused, there are no option strings.
\<close>

definition get_positional_kwargs ::
  "string list \<Rightarrow> (string \<times> pyval) list \<Rightarrow> error + (string list \<times> pyval)" where
  "get_positional_kwargs strs kw =
     (if strs \<noteq> [] \<and> ''dest'' \<in> fst ` set kw then Inl ValueError
      else if strs = [] \<and> ''dest'' \<notin> fst ` set kw then Inl TypeError
      else if ''required'' \<in> fst ` set kw then Inl TypeError
      else Inr ([], if strs = [] then kw_get kw ''dest'' else VStr (hd strs)))"

text \<open>
  \<^verbatim>\<open>action_class(**kwargs)\<close>. The call raises \<^verbatim>\<open>TypeError\<close> for a keyword the class does
  not take (the keywords passed are those of the descriptor without \<^verbatim>\<open>action\<close> and
  \<^verbatim>\<open>dest\<close>, and \<^verbatim>\<open>required\<close> for a positional argument) and for a missing keyword
  without default. The constructors of the store and append actions raise \<^verbatim>\<open>ValueError\<close>
  for \<^verbatim>\<open>nargs == 0\<close> and for a \<^verbatim>\<open>const\<close> with an \<^verbatim>\<open>nargs\<close> other than \<^verbatim>\<open>'?'\<close>.
\<close>

definition construct_action ::
  "action_class \<Rightarrow> bool \<Rightarrow> string list \<Rightarrow> pyval \<Rightarrow> (string \<times> pyval) list \<Rightarrow> error + Action" where
  "construct_action kind positional ostrs d kw =
     (let passed = filter (\<lambda>k. k \<noteq> ''action'' \<and> k \<noteq> ''dest'') (map fst kw)
                     @ (if positional then [''required''] else [])
      in if list_ex (\<lambda>k. k \<notin> set (class_keywords kind)) passed then Inl TypeError
         else if list_ex (\<lambda>k. k \<notin> fst ` set kw) (class_required_keywords kind) then Inl TypeError
         else if kind \<in> {Registered ''store'', Registered ''append''}
                 \<and> equals_zero (kw_get kw ''nargs'') then Inl ValueError
         else if kind \<in> {Registered ''store'', Registered ''append''}
                 \<and> kw_get kw ''const'' \<noteq> VNone \<and> kw_get kw ''nargs'' \<noteq> VStr ''?''
              then Inl ValueError
         else Inr \<lparr>option_strings = ostrs,
                   dest = d,
                   action_kind = kind,
                   nargs = class_nargs kind kw,
                   default = (if ''default'' \<in> fst ` set kw then kw_get kw ''default''
                              else class_default kind),
                   type_func = kw_get kw ''type'',
                   required = (if positional then True else truthy (kw_get kw ''required''))\<rparr>)"

text \<open>
  The two tests of \<^verbatim>\<open>add_argument\<close> on the constructed action: its type must be callable,
  and formatting its arguments must not raise \<^verbatim>\<open>TypeError\<close>, which it does for choices
  that cannot be iterated (they are read when there is no \<^verbatim>\<open>metavar\<close>) and for an
  \<^verbatim>\<open>nargs\<close> that is neither one of the known strings nor a number.
\<close>

definition type_callable :: "pyval \<Rightarrow> bool" where
  "type_callable t = (case t of VNone \<Rightarrow> True | VCallable f \<Rightarrow> True | _ \<Rightarrow> False)"

definition nargs_formats :: "pyval \<Rightarrow> bool" where
  "nargs_formats n =
     (case n of
        VNone \<Rightarrow> True
      | VInt i \<Rightarrow> True
      | VBool b \<Rightarrow> True
      | VStr s \<Rightarrow> s \<in> {''?'', ''*'', ''+'', ''...'', ''A...''}
      | _ \<Rightarrow> False)"

definition choices_format :: "(string \<times> pyval) list \<Rightarrow> bool" where
  "choices_format kw =
     (kw_get kw ''metavar'' \<noteq> VNone
      \<or> (case kw_get kw ''choices'' of
            VNone \<Rightarrow> True | VStr s \<Rightarrow> True | VSuppress \<Rightarrow> True | _ \<Rightarrow> False))"

text \<open>
  The part of \<^verbatim>\<open>add_argument(*args, **kwargs)\<close> before \<^verbatim>\<open>_add_action\<close>. The first test
  reads \<^verbatim>\<open>args[0][0]\<close>, which raises \<^verbatim>\<open>IndexError\<close> on an empty name.
\<close>

definition is_positional :: "string list \<Rightarrow> bool" where
  "is_positional strs = (strs = [] \<or> (length strs = 1 \<and> hd (hd strs) \<noteq> prefix_char))"

definition build_action :: "string list \<Rightarrow> (string \<times> pyval) list \<Rightarrow> error + Action" where
  "build_action strs kw =
     (if length strs = 1 \<and> hd strs = [] then Inl IndexError
      else
        let positional = is_positional strs in
        (case (if positional then get_positional_kwargs strs kw
               else get_optional_kwargs strs kw) of
           Inl e \<Rightarrow> Inl e
         | Inr (ostrs, d) \<Rightarrow>
             (case pop_action_class kw of
                Inl e \<Rightarrow> Inl e
              | Inr kind \<Rightarrow>
                  (case construct_action kind positional ostrs d kw of
                     Inl e \<Rightarrow> Inl e
                   | Inr action \<Rightarrow>
                       if \<not> type_callable (type_func action) then Inl ValueError
                       else if \<not> (choices_format kw \<and> nargs_formats (nargs action))
                         then Inl ValueError
                       else Inr action))))"

text \<open>\<^verbatim>\<open>_check_conflict\<close> with \<^verbatim>\<open>_handle_conflict_error\<close>, then \<^verbatim>\<open>_add_action\<close>.\<close>

definition check_conflict :: "ArgumentParser \<Rightarrow> Action \<Rightarrow> error + unit" where
  "check_conflict parser action =
     (let confl_optionals =
            filter (\<lambda>s. s \<in> fst ` set (option_string_actions parser)) (option_strings action)
      in if confl_optionals \<noteq> [] then Inl (ArgumentError confl_optionals) else Inr ())"

definition add_action :: "ArgumentParser \<Rightarrow> Action \<Rightarrow> error + ArgumentParser" where
  "add_action parser action =
     (case check_conflict parser action of
        Inl e \<Rightarrow> Inl e
      | Inr _ \<Rightarrow>
          Inr (parser\<lparr>actions := actions parser @ [action],
                      option_string_actions :=
                        fold (\<lambda>s. AList.update s action) (option_strings action)
                          (option_string_actions parser)\<rparr>))"

definition add_argument ::
  "ArgumentParser \<Rightarrow> string list \<Rightarrow> (string \<times> pyval) list \<Rightarrow> error + ArgumentParser" where
  "add_argument parser strs kw =
     (case build_action strs kw of
        Inl e \<Rightarrow> Inl e
      | Inr action \<Rightarrow> add_action parser action)"

text \<open>
  \<^verbatim>\<open>ArgumentParser(prog=prog, description=description)\<close>: \<^verbatim>\<open>add_help\<close> defaults to true,
  so the constructor adds the help action itself.
\<close>

definition ArgumentParser_init :: "string \<Rightarrow> string \<Rightarrow> error + ArgumentParser" where
  "ArgumentParser_init p d =
     add_argument \<lparr>prog = p, description = d, actions = [], option_string_actions = []\<rparr>
       [''-h'', ''--help'']
       [(''action'', VStr ''help''), (''default'', VSuppress),
        (''help'', VStr ''show this help message and exit'')]"

section \<open>Command: building the parser\<close>

text \<open>
  \<^verbatim>\<open>create_parser\<close> reads \<^verbatim>\<open>self.description\<close> and \<^verbatim>\<open>self.get_options()\<close>, both resolved
  on the instance's class. A command is given by what these two evaluate to.
\<close>

record Command =
  cmd_description :: string
  cmd_get_options :: "Option_obj list"

fun add_options :: "ArgumentParser \<Rightarrow> Option_obj list \<Rightarrow> error + ArgumentParser" where
  "add_options parser [] = Inr parser"
| "add_options parser (opt # opts) =
     (case add_argument parser (args opt) (kwargs opt) of
        Inl e \<Rightarrow> Inl e
      | Inr parser' \<Rightarrow> add_options parser' opts)"

definition create_parser :: "Command \<Rightarrow> string \<Rightarrow> error + ArgumentParser" where
  "create_parser self p =
     (case ArgumentParser_init p (cmd_description self) of
        Inl e \<Rightarrow> Inl e
      | Inr parser \<Rightarrow> add_options parser (cmd_get_options self))"

text \<open>
  The option strings a descriptor registers with the parser: its names, or none when the
  parser reads it as a positional argument.
\<close>

definition declared_strings :: "Option_obj \<Rightarrow> string list" where
  "declared_strings opt = (if is_positional (args opt) then [] else args opt)"

text \<open>
  A descriptor that \<^verbatim>\<open>add_argument\<close> accepts by itself: the action can be built from it.
\<close>

definition valid_option :: "Option_obj \<Rightarrow> bool" where
  "valid_option opt = (case build_action (args opt) (kwargs opt) of Inl e \<Rightarrow> False | Inr a \<Rightarrow> True)"

text \<open>
  Going through the descriptors in declaration order, with the option strings \<open>seen\<close>
  registered before them: the option strings of the first descriptor that reuses a
  registered one, restricted to the reused ones; empty when no descriptor does.
\<close>

fun first_conflict :: "string list \<Rightarrow> Option_obj list \<Rightarrow> string list" where
  "first_conflict seen [] = []"
| "first_conflict seen (opt # opts) =
     (let reused = filter (\<lambda>s. s \<in> set seen) (declared_strings opt)
      in if reused \<noteq> [] then reused else first_conflict (seen @ declared_strings opt) opts)"

text \<open>
  What \<^verbatim>\<open>_add_action\<close> maintains: the keys of \<^verbatim>\<open>_option_string_actions\<close> are the
  option strings of the registered actions.
\<close>

definition parser_inv :: "ArgumentParser \<Rightarrow> bool" where
  "parser_inv parser =
     (fst ` set (option_string_actions parser) = set (concat (map option_strings (actions parser))))"

text \<open>The option strings registered with a built parser, in registration order; nothing
  when building raised.\<close>

definition registered_flags :: "error + ArgumentParser \<Rightarrow> string list option" where
  "registered_flags r =
     (case r of Inl e \<Rightarrow> None | Inr parser \<Rightarrow> Some (map fst (option_string_actions parser)))"

text \<open>The instances built by the constructors' default arguments.\<close>

definition default_Server :: Server where
  "default_Server =
     \<lparr>port = 5000, host = ''127.0.0.1'', use_debugger = True, use_reloader = True,
      server_options = [], threaded = False, processes = 1, passthrough_errors = False\<rparr>"

text \<open>Two descriptors that both claim the flag \<^verbatim>\<open>-d\<close>.\<close>

definition colliding_command :: Command where
  "colliding_command =
     \<lparr>cmd_description = ''demo'',
      cmd_get_options =
        [\<lparr>args = [''-d'', ''--debug''], kwargs = [(''action'', VStr ''store_true'')]\<rparr>,
         \<lparr>args = [''-d'', ''--dry-run''], kwargs = [(''action'', VStr ''store_true'')]\<rparr>]\<rparr>"

text \<open>The same, the second descriptor naming an action that is not registered.\<close>

definition bogus_colliding_command :: Command where
  "bogus_colliding_command =
     \<lparr>cmd_description = ''demo'',
      cmd_get_options =
        [\<lparr>args = [''-d'', ''--debug''], kwargs = [(''action'', VStr ''store_true'')]\<rparr>,
         \<lparr>args = [''-d'', ''--dry-run''], kwargs = [(''action'', VStr ''bogus'')]\<rparr>]\<rparr>"

section \<open>Parsing an empty command line\<close>

text \<open>
  \<^verbatim>\<open>parser.parse_args([])\<close>. The namespace is an association list from attribute name
  to value. First every action whose destination and default are not the object
  \<^verbatim>\<open>SUPPRESS\<close> seeds its default unless the attribute is already there (\<^verbatim>\<open>hasattr\<close>
  and \<^verbatim>\<open>setattr\<close> raise \<^verbatim>\<open>TypeError\<close> on a name that is not a string). No argument
  string is consumed, so every action is unseen: a required one makes the parser exit with
  status 2, a string default still in the namespace is converted by the action's type,
  where a string in the namespace that equals the default is taken to be that object and
  the absent type returns its argument. Calling a named type on a string is outside the
  repository; it is the parameter \<open>call\<close>, with \<open>None\<close> for a \<^verbatim>\<open>TypeError\<close> or
  \<^verbatim>\<open>ValueError\<close>, which also exits with 2. The model is for parsers whose actions are
  optional arguments; a positional argument is required and unseen.
\<close>

type_synonym Namespace = "(string \<times> pyval) list"

text \<open>The characters of a value that is a string.\<close>

definition str_content :: "pyval \<Rightarrow> string option" where
  "str_content v =
     (case v of VStr s \<Rightarrow> Some s | VSuppress \<Rightarrow> Some ''==SUPPRESS=='' | _ \<Rightarrow> None)"

fun seed_defaults :: "Action list \<Rightarrow> Namespace \<Rightarrow> error + Namespace" where
  "seed_defaults [] ns = Inr ns"
| "seed_defaults (action # rest) ns =
     (if dest action \<noteq> VSuppress then
        (case dest action of
           VStr d \<Rightarrow>
             if d \<notin> fst ` set ns \<and> default action \<noteq> VSuppress
             then seed_defaults rest (AList.update d (default action) ns)
             else seed_defaults rest ns
         | _ \<Rightarrow> Inl TypeError)
      else seed_defaults rest ns)"

definition get_value ::
  "(string \<Rightarrow> string \<Rightarrow> pyval option) \<Rightarrow> Action \<Rightarrow> pyval \<Rightarrow> string \<Rightarrow> pyval option" where
  "get_value call action v arg_string =
     (case type_func action of
        VNone \<Rightarrow> Some v
      | VCallable f \<Rightarrow> call f arg_string
      | _ \<Rightarrow> None)"

fun convert_unseen ::
  "(string \<Rightarrow> string \<Rightarrow> pyval option) \<Rightarrow> Action list \<Rightarrow> Namespace \<Rightarrow> bool \<Rightarrow> error + Namespace" where
  "convert_unseen call [] ns missing = (if missing then Inl (SystemExit 2) else Inr ns)"
| "convert_unseen call (action # rest) ns missing =
     (if required action then convert_unseen call rest ns True
      else
        (case (str_content (default action), dest action) of
           (Some s, VStr d) \<Rightarrow>
             if map_of ns d = Some (default action)
             then (case get_value call action (default action) s of
                     None \<Rightarrow> Inl (SystemExit 2)
                   | Some v \<Rightarrow> convert_unseen call rest (AList.update d v ns) missing)
             else convert_unseen call rest ns missing
         | _ \<Rightarrow> convert_unseen call rest ns missing))"

definition parse_args_empty ::
  "(string \<Rightarrow> string \<Rightarrow> pyval option) \<Rightarrow> ArgumentParser \<Rightarrow> error + Namespace" where
  "parse_args_empty call parser =
     (case seed_defaults (actions parser) [] of
        Inl e \<Rightarrow> Inl e
      | Inr ns \<Rightarrow> convert_unseen call (actions parser) ns False)"

section \<open>Shell: running\<close>

text \<open>
  What \<^verbatim>\<open>Shell.run\<close> finds installed. \<^verbatim>\<open>from bpython import embed\<close> succeeds or raises
  \<^verbatim>\<open>ImportError\<close>. \<^verbatim>\<open>import IPython\<close> raises \<^verbatim>\<open>ImportError\<close>, or gives a module with
  \<^verbatim>\<open>IPython.Shell.IPShellEmbed\<close>, or one without it (\<^verbatim>\<open>AttributeError\<close>, caught) but with
  \<^verbatim>\<open>IPython.frontend.terminal.embed.InteractiveShellEmbed\<close>, or one with neither, where
  the second \<^verbatim>\<open>AttributeError\<close> is not caught.
\<close>

datatype ipython_module = IPythonMissing | IPythonShell | IPythonFrontend | IPythonNeither

record shell_env =
  bpython_installed :: bool
  ipython_installed :: ipython_module

text \<open>
  The observable steps of \<^verbatim>\<open>run\<close>: the \<open>n\<close>-th call of the context factory, and each
  interactive shell that is started, with its banner and namespace.
\<close>

datatype shell_event =
    FactoryCall nat
  | BPythonEmbed string namespace_ctx
  | IPShellEmbed string namespace_ctx
  | InteractiveShellEmbed string namespace_ctx
  | CodeInteract string namespace_ctx

text \<open>How a block of \<^verbatim>\<open>run\<close> ends: control goes on, the method returns, or it raises.\<close>

datatype flow = FallThrough | Returned | Raised error

text \<open>
  \<^verbatim>\<open>Shell.run(self, no_ipython, bpython)\<close>, started when the factory has been called \<open>n\<close>
  times. \<^verbatim>\<open>get_context()\<close> calls the factory. The \<^verbatim>\<open>bpython\<close> branch calls
  \<^verbatim>\<open>get_context()\<close> a second time for \<^verbatim>\<open>locals_\<close> and has no \<^verbatim>\<open>return\<close>; the IPython
  branch passes \<^verbatim>\<open>context\<close> and returns.
\<close>

definition Shell_run :: "Shell \<Rightarrow> shell_env \<Rightarrow> nat \<Rightarrow> bool \<Rightarrow> bool \<Rightarrow> (error + unit) \<times> shell_event list" where
  "Shell_run self env n no_ipython bpython =
     (let context = make_context self n;
          trace0 = [FactoryCall n];
          (fl, trace1) =
            (if bpython then
               (if bpython_installed env
                then (FallThrough,
                      trace0 @ [FactoryCall (Suc n),
                                BPythonEmbed (banner self) (make_context self (Suc n))])
                else (FallThrough, trace0))
             else if \<not> no_ipython then
               (case ipython_installed env of
                  IPythonMissing \<Rightarrow> (FallThrough, trace0)
                | IPythonShell \<Rightarrow> (Returned, trace0 @ [IPShellEmbed (banner self) context])
                | IPythonFrontend \<Rightarrow>
                    (Returned, trace0 @ [InteractiveShellEmbed (banner self) context])
                | IPythonNeither \<Rightarrow> (Raised (AttributeError ''frontend''), trace0))
             else (FallThrough, trace0))
      in case fl of
           FallThrough \<Rightarrow> (Inr (), trace1 @ [CodeInteract (banner self) context])
         | Returned \<Rightarrow> (Inr (), trace1)
         | Raised e \<Rightarrow> (Inl e, trace1))"

text \<open>The command as \<^verbatim>\<open>create_parser\<close> sees a Shell: the class attribute \<^verbatim>\<open>description\<close>
  and the result of \<^verbatim>\<open>Shell.get_options\<close>.\<close>

definition Shell_command :: "Shell \<Rightarrow> Command" where
  "Shell_command self =
     \<lparr>cmd_description = ''Runs a Python shell inside Flask application context.'',
      cmd_get_options = Shell_get_options self\<rparr>"

text \<open>
  \<^verbatim>\<open>Shell(make_context=f)\<close> with the constructor's default preferences, and a Shell whose
  factory returns a different namespace at every call.
\<close>

definition default_Shell :: "(nat \<Rightarrow> namespace_ctx) \<Rightarrow> Shell" where
  "default_Shell f = \<lparr>banner = '''', use_ipython = True, use_bpython = False, make_context = f\<rparr>"

definition counting_Shell :: Shell where
  "counting_Shell =
     \<lparr>banner = ''hi'', use_ipython = True, use_bpython = True,
      make_context = (\<lambda>n. [(''calls'', VInt (int n))])\<rparr>"

section \<open>Command.handle and the request context\<close>

text \<open>
  The request context is a collaborator from Flask. It is modelled as a stub that records
  its use: the stack of applications whose context is active (the newest first), and how
  often a context was entered and exited. \<^verbatim>\<open>__enter__\<close> pushes, \<^verbatim>\<open>__exit__\<close> pops and
  returns \<^verbatim>\<open>None\<close>, so it never swallows an exception.
\<close>

record 'app ctx_state =
  ctx_stack :: "'app list"
  entered :: nat
  exited :: nat

definition ctx_enter :: "'app \<Rightarrow> 'app ctx_state \<Rightarrow> 'app ctx_state" where
  "ctx_enter app s = s\<lparr>ctx_stack := app # ctx_stack s, entered := Suc (entered s)\<rparr>"

definition ctx_exit :: "error option \<Rightarrow> 'app ctx_state \<Rightarrow> bool \<times> 'app ctx_state" where
  "ctx_exit exc s = (False, s\<lparr>ctx_stack := tl (ctx_stack s), exited := Suc (exited s)\<rparr>)"

text \<open>
  \<^verbatim>\<open>Command.handle(self, app, *args, **kwargs)\<close>:
  \<^verbatim>\<open>with app.test_request_context(): return self.run(*args, **kwargs)\<close>.
  The argument \<open>run\<close> is \<^verbatim>\<open>self.run\<close> applied to the arguments; it sees the context
  state and returns a value or raises. The \<^verbatim>\<open>with\<close> statement enters, runs the body, and
  calls \<^verbatim>\<open>__exit__\<close> on both paths, with the exception if there is one; the exception
  propagates unless \<^verbatim>\<open>__exit__\<close> returns a true value, in which case the method ends
  without a value (\<open>None\<close>).
\<close>

definition Command_handle :: "'app \<Rightarrow> ('app ctx_state \<Rightarrow> error + 'r) \<Rightarrow> 'app ctx_state \<Rightarrow> (error + 'r option) \<times> 'app ctx_state" where
  "Command_handle app run s =
     (let s1 = ctx_enter app s in
      case run s1 of
        Inr v \<Rightarrow> (let (swallow, s2) = ctx_exit None s1 in (Inr (Some v), s2))
      | Inl e \<Rightarrow> (let (swallow, s2) = ctx_exit (Some e) s1
                  in (if swallow then Inr None else Inl e, s2)))"

text \<open>\<^verbatim>\<open>Command.run\<close> of the base class: \<^verbatim>\<open>raise NotImplementedError\<close>.\<close>

definition Command_run :: "'app ctx_state \<Rightarrow> error + unit" where
  "Command_run s = Inl NotImplementedError"

section \<open>Server.handle\<close>

text \<open>
  The application as \<^verbatim>\<open>Server.handle\<close> uses it: \<^verbatim>\<open>app.config\<close>, and \<^verbatim>\<open>app.run\<close>, whose
  calls are recorded with their keyword arguments.
\<close>

record Flask_app =
  config :: "(string \<times> pyval) list"

text \<open>The keywords that the call \<^verbatim>\<open>app.run(host=host, port=port, debug=..., ...)\<close> writes out.\<close>

definition explicit_run_keywords :: "string list" where
  "explicit_run_keywords =
     [''host'', ''port'', ''debug'', ''use_debugger'', ''use_reloader'', ''threaded'',
      ''processes'', ''passthrough_errors'']"

text \<open>
  \<^verbatim>\<open>Server.handle(self, app, host, port, use_debugger, use_reloader, threaded, processes,
  passthrough_errors)\<close>. There is no \<^verbatim>\<open>with\<close>: the context state is returned as it came.
  \<^verbatim>\<open>app.config.get('DEBUG', use_debugger)\<close> is the configured value when the key is
  present. A keyword of \<^verbatim>\<open>**self.server_options\<close> that repeats a written keyword makes the
  call raise \<^verbatim>\<open>TypeError\<close> before \<^verbatim>\<open>app.run\<close> is entered. The result is the outcome, the
  context state, and the recorded calls of \<^verbatim>\<open>app.run\<close>.
\<close>

definition Server_handle ::
  "Server \<Rightarrow> Flask_app \<Rightarrow> pyval \<Rightarrow> pyval \<Rightarrow> pyval \<Rightarrow> pyval \<Rightarrow> pyval \<Rightarrow> pyval \<Rightarrow> pyval \<Rightarrow>
     Flask_app ctx_state \<Rightarrow> (error + unit) \<times> Flask_app ctx_state \<times> (string \<times> pyval) list list" where
  "Server_handle self app host_arg port_arg use_debugger_arg use_reloader_arg threaded_arg
       processes_arg passthrough_errors_arg s =
     (let debug = (case map_of (config app) ''DEBUG'' of
                     Some v \<Rightarrow> v
                   | None \<Rightarrow> use_debugger_arg);
          written = [(''host'', host_arg),
                     (''port'', port_arg),
                     (''debug'', debug),
                     (''use_debugger'', use_debugger_arg),
                     (''use_reloader'', use_reloader_arg),
                     (''threaded'', threaded_arg),
                     (''processes'', processes_arg),
                     (''passthrough_errors'', passthrough_errors_arg)]
      in if list_ex (\<lambda>k. k \<in> set (map fst written)) (map fst (server_options self))
         then (Inl TypeError, s, [])
         else (Inr (), s, [written @ server_options self]))"

section \<open>Clean\<close>

text \<open>
  The directory tree below the current directory: a directory is the list of its entries in
  the order \<^verbatim>\<open>os.listdir\<close> gives them, a file is its name.
\<close>

datatype fs_entry = File string | Dir string "fs_entry list"

text \<open>\<^verbatim>\<open>sub in s\<close> on strings.\<close>

fun starts_with :: "string \<Rightarrow> string \<Rightarrow> bool" where
  "starts_with [] s = True"
| "starts_with (p # ps) [] = False"
| "starts_with (p # ps) (c # cs) = (p = c \<and> starts_with ps cs)"

fun substring_in :: "string \<Rightarrow> string \<Rightarrow> bool" where
  "substring_in sub [] = (sub = [])"
| "substring_in sub (c # cs) = (starts_with sub (c # cs) \<or> substring_in sub cs)"

text \<open>\<^verbatim>\<open>os.path.join(a, b)\<close> for two components.\<close>

definition path_join :: "string \<Rightarrow> string \<Rightarrow> string" where
  "path_join a b =
     (if b \<noteq> [] \<and> hd b = CHR ''/'' then b
      else if a = [] \<or> last a = CHR ''/'' then a @ b
      else a @ ''/'' @ b)"

fun file_names :: "fs_entry list \<Rightarrow> string list" where
  "file_names [] = []"
| "file_names (File n # es) = n # file_names es"
| "file_names (Dir n sub # es) = file_names es"

fun keep_entry :: "fs_entry \<Rightarrow> bool" where
  "keep_entry (File n) = (\<not> substring_in ''.pyc'' n)"
| "keep_entry (Dir n sub) = True"

text \<open>
  \<^verbatim>\<open>os.walk\<close> lists a directory, yields it, and then walks the subdirectories of that
  listing. \<open>Clean_walk\<close> is the loop body on one directory followed by the walk of its
  subdirectories: each file name with \<^verbatim>\<open>'.pyc' in filename\<close> is printed and removed.
\<close>

fun Clean_walk :: "string \<Rightarrow> fs_entry list \<Rightarrow> string list \<times> fs_entry list"
  and Clean_subdirs :: "string \<Rightarrow> fs_entry list \<Rightarrow> string list \<times> fs_entry list" where
  "Clean_walk dirpath es =
     (let printed = map (\<lambda>filename. ''Removing '' @ path_join dirpath filename)
                      (filter (substring_in ''.pyc'') (file_names es));
          (sub_printed, es') = Clean_subdirs dirpath es
      in (printed @ sub_printed, filter keep_entry es'))"
| "Clean_subdirs dirpath [] = ([], [])"
| "Clean_subdirs dirpath (File n # es) =
     (let (printed, es') = Clean_subdirs dirpath es in (printed, File n # es'))"
| "Clean_subdirs dirpath (Dir n sub # es) =
     (let (printed1, sub') = Clean_walk (path_join dirpath n) sub;
          (printed2, es') = Clean_subdirs dirpath es
      in (printed1 @ printed2, Dir n sub' # es'))"

text \<open>\<^verbatim>\<open>Clean.run\<close> walks from \<^verbatim>\<open>'.'\<close>; it returns the printed lines and the tree it leaves.\<close>

definition Clean_run :: "fs_entry list \<Rightarrow> string list \<times> fs_entry list" where
  "Clean_run cwd = Clean_walk ''.'' cwd"

text \<open>
  What is in a tree, in the order of the walk: every file as the pair of the directory path
  and its name, and every directory path.
\<close>

fun tree_files :: "string \<Rightarrow> fs_entry list \<Rightarrow> (string \<times> string) list"
  and subdir_files :: "string \<Rightarrow> fs_entry list \<Rightarrow> (string \<times> string) list" where
  "tree_files dirpath es = map (Pair dirpath) (file_names es) @ subdir_files dirpath es"
| "subdir_files dirpath [] = []"
| "subdir_files dirpath (File n # es) = subdir_files dirpath es"
| "subdir_files dirpath (Dir n sub # es) =
     tree_files (path_join dirpath n) sub @ subdir_files dirpath es"

fun tree_dirs :: "string \<Rightarrow> fs_entry list \<Rightarrow> string list"
  and subdir_dirs :: "string \<Rightarrow> fs_entry list \<Rightarrow> string list" where
  "tree_dirs dirpath es = dirpath # subdir_dirs dirpath es"
| "subdir_dirs dirpath [] = []"
| "subdir_dirs dirpath (File n # es) = subdir_dirs dirpath es"
| "subdir_dirs dirpath (Dir n sub # es) =
     tree_dirs (path_join dirpath n) sub @ subdir_dirs dirpath es"

definition is_pyc :: "string \<times> string \<Rightarrow> bool" where
  "is_pyc df = substring_in ''.pyc'' (snd df)"

definition removing_line :: "string \<times> string \<Rightarrow> string" where
  "removing_line df = ''Removing '' @ path_join (fst df) (snd df)"

section \<open>ShowUrls\<close>

text \<open>
  A route entry has a pattern and an endpoint name and may have further attributes.
  Attribute values are \<^verbatim>\<open>None\<close>, booleans, integers and strings, which Python 2 orders
  totally: \<^verbatim>\<open>None\<close> first, then numbers by value (booleans as 0 and 1), then strings by
  their bytes. \<^verbatim>\<open>str(rule)\<close> is the pattern.
\<close>

datatype attr_val = ANone | ABool bool | AInt int | AStr string

record Rule =
  rule :: string
  endpoint :: string
  other_attrs :: "(string \<times> attr_val) list"

definition getattr :: "Rule \<Rightarrow> string \<Rightarrow> attr_val option" where
  "getattr r name =
     (if name = ''rule'' then Some (AStr (rule r))
      else if name = ''endpoint'' then Some (AStr (endpoint r))
      else map_of (other_attrs r) name)"

fun py2_key :: "attr_val \<Rightarrow> nat \<times> int \<times> string" where
  "py2_key ANone = (0, 0, [])"
| "py2_key (ABool b) = (1, if b then 1 else 0, [])"
| "py2_key (AInt i) = (1, i, [])"
| "py2_key (AStr s) = (2, 0, s)"

text \<open>
  \<^verbatim>\<open>sorted(..., key=lambda rule: getattr(rule, order))\<close> computes the key of every
  entry, which raises \<^verbatim>\<open>AttributeError\<close> at the first entry without the attribute, and
  sorts stably by the keys.
\<close>

fun decorate :: "string \<Rightarrow> Rule list \<Rightarrow> error + ((nat \<times> int \<times> string) \<times> Rule) list" where
  "decorate order [] = Inr []"
| "decorate order (r # rs) =
     (case getattr r order of
        None \<Rightarrow> Inl (AttributeError order)
      | Some v \<Rightarrow>
          (case decorate order rs of
             Inl e \<Rightarrow> Inl e
           | Inr ks \<Rightarrow> Inr ((py2_key v, r) # ks)))"

text \<open>\<^verbatim>\<open>"%-30s" % s\<close> pads on the right to the width and never truncates.\<close>

definition ljust :: "nat \<Rightarrow> string \<Rightarrow> string" where
  "ljust w s = s @ replicate (w - length s) CHR '' ''"

definition url_row :: "Rule \<Rightarrow> string" where
  "url_row r = ljust 30 (rule r) @ '' '' @ endpoint r"

text \<open>
  \<^verbatim>\<open>ShowUrls.run(order)\<close> on the route table \<open>url_map\<close>: the header and the separator
  are printed before the table is sorted. The result is the printed lines and the outcome.
\<close>

definition ShowUrls_run :: "string \<Rightarrow> Rule list \<Rightarrow> string list \<times> (error + unit)" where
  "ShowUrls_run order url_map =
     (let printed = [ljust 30 ''Rule'' @ '' '' @ ''Endpoint'', replicate 80 CHR ''-'']
      in case decorate order url_map of
           Inl e \<Rightarrow> (printed, Inl e)
         | Inr keyed \<Rightarrow> (printed @ map url_row (map snd (sort_key fst keyed)), Inr ()))"

definition order_key :: "string \<Rightarrow> Rule \<Rightarrow> nat \<times> int \<times> string" where
  "order_key order r = (case getattr r order of None \<Rightarrow> (0, 0, []) | Some v \<Rightarrow> py2_key v)"

section \<open>The class-level option list\<close>
















text \<open>Three route entries with the patterns \<^verbatim>\<open>/a\<close>, \<^verbatim>\<open>/c\<close>, \<^verbatim>\<open>/b\<close>, in this order.\<close>

definition three_rules :: "Rule list" where
  "three_rules =
     [\<lparr>rule = ''/a'', endpoint = ''a'', other_attrs = []\<rparr>,
      \<lparr>rule = ''/c'', endpoint = ''c'', other_attrs = []\<rparr>,
      \<lparr>rule = ''/b'', endpoint = ''b'', other_attrs = []\<rparr>]"


section \<open>Properties\<close>

text \<open>
  Claim C1. The options of a Server contain, when \<open>use_debugger\<close> is configured on, a
  \<open>-d/--no-debug\<close> descriptor with action \<open>store_false\<close> bound to \<open>use_debugger\<close> and no
  \<open>--debug\<close> flag; when it is configured off, a \<open>-d/--debug\<close> descriptor with action
  \<open>store_true\<close> and no \<open>--no-debug\<close> flag. The same polarity rule holds for
  \<open>-r/--no-reload\<close> against \<open>-r/--reload\<close> and \<open>use_reloader\<close>.
\<close>

theorem Server_get_options_polarity:
  "(use_debugger self \<longrightarrow>
      has_flag_option (Server_get_options self) ''-d'' ''--no-debug'' ''store_false'' ''use_debugger''
      \<and> ''--debug'' \<notin> set (option_flags (Server_get_options self)))
   \<and> (\<not> use_debugger self \<longrightarrow>
      has_flag_option (Server_get_options self) ''-d'' ''--debug'' ''store_true'' ''use_debugger''
      \<and> ''--no-debug'' \<notin> set (option_flags (Server_get_options self)))
   \<and> (use_reloader self \<longrightarrow>
      has_flag_option (Server_get_options self) ''-r'' ''--no-reload'' ''store_false'' ''use_reloader''
      \<and> ''--reload'' \<notin> set (option_flags (Server_get_options self)))
   \<and> (\<not> use_reloader self \<longrightarrow>
      has_flag_option (Server_get_options self) ''-r'' ''--reload'' ''store_true'' ''use_reloader''
      \<and> ''--no-reload'' \<notin> set (option_flags (Server_get_options self)))"
  by (simp add: Server_get_options_def has_flag_option_def option_flags_def Let_def)

theorem Server_get_options_polarity_witness:
  "has_flag_option (Server_get_options default_Server) ''-d'' ''--no-debug'' ''store_false'' ''use_debugger''
   \<and> ''--debug'' \<notin> set (option_flags (Server_get_options default_Server))
   \<and> has_flag_option (Server_get_options default_Server) ''-r'' ''--no-reload'' ''store_false'' ''use_reloader''
   \<and> ''--reload'' \<notin> set (option_flags (Server_get_options default_Server))
   \<and> has_flag_option (Server_get_options (default_Server\<lparr>use_debugger := False, use_reloader := False\<rparr>))
         ''-d'' ''--debug'' ''store_true'' ''use_debugger''
   \<and> ''--no-debug'' \<notin> set (option_flags (Server_get_options (default_Server\<lparr>use_debugger := False, use_reloader := False\<rparr>)))
   \<and> has_flag_option (Server_get_options (default_Server\<lparr>use_debugger := False, use_reloader := False\<rparr>))
         ''-r'' ''--reload'' ''store_true'' ''use_reloader''
   \<and> ''--no-reload'' \<notin> set (option_flags (Server_get_options (default_Server\<lparr>use_debugger := False, use_reloader := False\<rparr>)))"
proof -
  have on: "use_debugger default_Server" "use_reloader default_Server"
    by (simp_all add: default_Server_def)
  have off: "\<not> use_debugger (default_Server\<lparr>use_debugger := False, use_reloader := False\<rparr>)"
    "\<not> use_reloader (default_Server\<lparr>use_debugger := False, use_reloader := False\<rparr>)"
    by simp_all
  from Server_get_options_polarity [of default_Server] on
    Server_get_options_polarity [of "default_Server\<lparr>use_debugger := False, use_reloader := False\<rparr>"] off
  show ?thesis by blast
qed

text \<open>
  Claim C8. The options of a Shell are exactly two \<open>store_true\<close> descriptors:
  \<open>--no-ipython\<close> with destination \<open>no_ipython\<close> and \<open>--bpython\<close> with destination
  \<open>bpython\<close>; their defaults are the negations of the configured \<open>use_ipython\<close> and
  \<open>use_bpython\<close> preferences.
\<close>

theorem Shell_get_options_two_negated_defaults:
  "length (Shell_get_options self) = 2
   \<and> args (Shell_get_options self ! 0) = [''--no-ipython'']
   \<and> map_of (kwargs (Shell_get_options self ! 0)) ''action'' = Some (VStr ''store_true'')
   \<and> map_of (kwargs (Shell_get_options self ! 0)) ''dest'' = Some (VStr ''no_ipython'')
   \<and> map_of (kwargs (Shell_get_options self ! 0)) ''default'' = Some (VBool (\<not> use_ipython self))
   \<and> args (Shell_get_options self ! 1) = [''--bpython'']
   \<and> map_of (kwargs (Shell_get_options self ! 1)) ''action'' = Some (VStr ''store_true'')
   \<and> map_of (kwargs (Shell_get_options self ! 1)) ''dest'' = Some (VStr ''bpython'')
   \<and> map_of (kwargs (Shell_get_options self ! 1)) ''default'' = Some (VBool (\<not> use_bpython self))"
  by (simp add: Shell_get_options_def)

subsection \<open>The parser built by \<open>create_parser\<close>\<close>

lemma keys_fold_update:
  "fst ` set (fold (\<lambda>s. AList.update s a) ss al) = fst ` set al \<union> set ss"
  by (induction ss arbitrary: al) (auto simp: dom_update)

lemma add_action_eq:
  "add_action parser a =
     (if filter (\<lambda>s. s \<in> fst ` set (option_string_actions parser)) (option_strings a) \<noteq> []
      then Inl (ArgumentError
                  (filter (\<lambda>s. s \<in> fst ` set (option_string_actions parser)) (option_strings a)))
      else Inr (parser\<lparr>actions := actions parser @ [a],
                  option_string_actions :=
                    fold (\<lambda>s. AList.update s a) (option_strings a) (option_string_actions parser)\<rparr>))"
  by (simp add: add_action_def check_conflict_def Let_def)

lemma construct_action_option_strings:
  "construct_action kind positional ostrs d kw = Inr a \<Longrightarrow> option_strings a = ostrs"
  unfolding construct_action_def Let_def
  by (simp split: if_splits) auto

lemma get_positional_kwargs_strings:
  "get_positional_kwargs strs kw = Inr (ostrs, d) \<Longrightarrow> ostrs = []"
  unfolding get_positional_kwargs_def by (simp split: if_splits)

lemma get_optional_kwargs_strings:
  "get_optional_kwargs strs kw = Inr (ostrs, d) \<Longrightarrow> ostrs = strs"
  unfolding get_optional_kwargs_def by (auto split: sum.splits pyval.splits)

lemma build_action_option_strings:
  assumes "build_action strs kw = Inr a"
  shows "option_strings a = (if is_positional strs then [] else strs)"
proof -
  from assms obtain ostrs d kind
    where k: "(if is_positional strs then get_positional_kwargs strs kw
               else get_optional_kwargs strs kw) = Inr (ostrs, d)"
      and c: "construct_action kind (is_positional strs) ostrs d kw = Inr a"
    unfolding build_action_def Let_def
    by (simp split: if_splits sum.splits prod.splits)
  from c have "option_strings a = ostrs" by (rule construct_action_option_strings)
  moreover from k have "ostrs = (if is_positional strs then [] else strs)"
    by (auto split: if_splits dest: get_positional_kwargs_strings get_optional_kwargs_strings)
  ultimately show ?thesis by simp
qed

lemma add_argument_Inr:
  assumes "add_argument parser strs kw = Inr parser'"
  shows "\<exists>a. build_action strs kw = Inr a
            \<and> option_strings a = (if is_positional strs then [] else strs)
            \<and> filter (\<lambda>s. s \<in> fst ` set (option_string_actions parser)) (option_strings a) = []
            \<and> parser' = parser\<lparr>actions := actions parser @ [a],
                  option_string_actions :=
                    fold (\<lambda>s. AList.update s a) (option_strings a) (option_string_actions parser)\<rparr>"
proof -
  from assms obtain a where b: "build_action strs kw = Inr a"
    and ad: "add_action parser a = Inr parser'"
    by (auto simp: add_argument_def split: sum.splits)
  from ad have "filter (\<lambda>s. s \<in> fst ` set (option_string_actions parser)) (option_strings a) = []"
    and "parser' = parser\<lparr>actions := actions parser @ [a],
                  option_string_actions :=
                    fold (\<lambda>s. AList.update s a) (option_strings a) (option_string_actions parser)\<rparr>"
    by (auto simp: add_action_eq split: if_splits)
  with b build_action_option_strings[OF b] show ?thesis by blast
qed

lemma add_argument_step:
  assumes "add_argument parser strs kw = Inr parser'"
  shows "fst ` set (option_string_actions parser') =
           fst ` set (option_string_actions parser) \<union> set (if is_positional strs then [] else strs)"
    and "map option_strings (actions parser') =
           map option_strings (actions parser) @ [if is_positional strs then [] else strs]"
    and "description parser' = description parser"
    and "prog parser' = prog parser"
    and "filter (\<lambda>s. s \<in> fst ` set (option_string_actions parser))
           (if is_positional strs then [] else strs) = []"
proof -
  from add_argument_Inr[OF assms] obtain a
    where os: "option_strings a = (if is_positional strs then [] else strs)"
      and nc: "filter (\<lambda>s. s \<in> fst ` set (option_string_actions parser)) (option_strings a) = []"
      and eq: "parser' = parser\<lparr>actions := actions parser @ [a],
                  option_string_actions :=
                    fold (\<lambda>s. AList.update s a) (option_strings a) (option_string_actions parser)\<rparr>"
    by blast
  show "fst ` set (option_string_actions parser') =
           fst ` set (option_string_actions parser) \<union> set (if is_positional strs then [] else strs)"
    by (subst eq) (simp add: keys_fold_update os)
  show "map option_strings (actions parser') =
           map option_strings (actions parser) @ [if is_positional strs then [] else strs]"
    by (subst eq) (simp add: os)
  show "description parser' = description parser" by (subst eq) simp
  show "prog parser' = prog parser" by (subst eq) simp
  from nc show "filter (\<lambda>s. s \<in> fst ` set (option_string_actions parser))
           (if is_positional strs then [] else strs) = []"
    by (simp only: os)
qed

lemma add_options_Inr:
  assumes "add_options parser opts = Inr parser'" and "parser_inv parser"
  shows "parser_inv parser'
    \<and> map option_strings (actions parser') =
           map option_strings (actions parser) @ map declared_strings opts
    \<and> description parser' = description parser
    \<and> prog parser' = prog parser"
  using assms
proof (induction opts arbitrary: parser)
  case Nil
  then show ?case by simp
next
  case (Cons opt opts)
  from Cons.prems(1) obtain q where q: "add_argument parser (args opt) (kwargs opt) = Inr q"
    and rest: "add_options q opts = Inr parser'"
    by (auto split: sum.splits)
  note st = add_argument_step[OF q]
  from st(1,2) Cons.prems(2) have "parser_inv q"
    by (simp add: parser_inv_def)
  from Cons.IH[OF rest this] st(2,3,4) show ?case
    by (simp add: declared_strings_def)
qed

lemma add_options_Inr_no_conflict:
  assumes "add_options parser opts = Inr parser'"
    and "fst ` set (option_string_actions parser) = set seen"
  shows "first_conflict seen opts = []"
  using assms
proof (induction opts arbitrary: parser seen)
  case Nil
  then show ?case by simp
next
  case (Cons opt opts)
  from Cons.prems(1) obtain q where q: "add_argument parser (args opt) (kwargs opt) = Inr q"
    and rest: "add_options q opts = Inr parser'"
    by (auto split: sum.splits)
  note st = add_argument_step[OF q]
  from st(5) Cons.prems(2)
  have nc: "filter (\<lambda>s. s \<in> set seen) (declared_strings opt) = []"
    by (simp add: declared_strings_def)
  from st(1) Cons.prems(2)
  have "fst ` set (option_string_actions q) = set (seen @ declared_strings opt)"
    by (simp add: declared_strings_def)
  from Cons.IH[OF rest this] nc show ?case by simp
qed

lemma add_options_valid:
  assumes "list_all valid_option opts"
    and "fst ` set (option_string_actions parser) = set seen"
  shows "add_options parser opts = Inl (ArgumentError (first_conflict seen opts))
         \<or> (first_conflict seen opts = [] \<and> (\<exists>parser'. add_options parser opts = Inr parser'))"
  using assms
proof (induction opts arbitrary: parser seen)
  case Nil
  then show ?case by simp
next
  case (Cons opt opts)
  from Cons.prems(1) obtain a where b: "build_action (args opt) (kwargs opt) = Inr a"
    by (auto simp: valid_option_def split: sum.splits)
  have os: "option_strings a = declared_strings opt"
    using build_action_option_strings[OF b] by (simp add: declared_strings_def)
  let ?reused = "filter (\<lambda>s. s \<in> set seen) (declared_strings opt)"
  have step: "add_argument parser (args opt) (kwargs opt) =
      (if ?reused \<noteq> [] then Inl (ArgumentError ?reused)
       else Inr (parser\<lparr>actions := actions parser @ [a],
                  option_string_actions :=
                    fold (\<lambda>s. AList.update s a) (option_strings a) (option_string_actions parser)\<rparr>))"
    by (simp add: add_argument_def b add_action_eq os Cons.prems(2))
  show ?case
  proof (cases "?reused = []")
    case False
    with step show ?thesis by simp
  next
    case True
    let ?q = "parser\<lparr>actions := actions parser @ [a],
                  option_string_actions :=
                    fold (\<lambda>s. AList.update s a) (option_strings a) (option_string_actions parser)\<rparr>"
    from True step have q: "add_argument parser (args opt) (kwargs opt) = Inr ?q" by simp
    have keys: "fst ` set (option_string_actions ?q) = set (seen @ declared_strings opt)"
      by (simp add: keys_fold_update os Cons.prems(2))
    from Cons.prems(1) have "list_all valid_option opts" by simp
    from Cons.IH[OF this keys] q True show ?thesis by simp
  qed
qed

lemma ArgumentParser_init_eq:
  "\<exists>a. ArgumentParser_init p d =
          Inr \<lparr>prog = p, description = d, actions = [a],
               option_string_actions = [(''-h'', a), (''--help'', a)]\<rparr>
        \<and> option_strings a = [''-h'', ''--help'']"
  by (simp add: ArgumentParser_init_def add_argument_def build_action_def construct_action_def
      class_keywords_def class_required_keywords_def class_nargs_def type_callable_def
      nargs_formats_def choices_format_def is_positional_def prefix_char_def
      get_optional_kwargs_def kw_get_def infer_dest_def is_long_option_def pop_action_class_def
      registered_actions_def add_action_def check_conflict_def Let_def)

lemma create_parser_eq:
  "\<exists>q. create_parser self p = add_options q (cmd_get_options self)
       \<and> parser_inv q
       \<and> fst ` set (option_string_actions q) = set [''-h'', ''--help'']
       \<and> map option_strings (actions q) = [[''-h'', ''--help'']]
       \<and> description q = cmd_description self \<and> prog q = p"
proof -
  obtain a where init: "ArgumentParser_init p (cmd_description self) =
      Inr \<lparr>prog = p, description = cmd_description self, actions = [a],
       option_string_actions = [(''-h'', a), (''--help'', a)]\<rparr>"
    and a: "option_strings a = [''-h'', ''--help'']"
    using ArgumentParser_init_eq by blast
  let ?q = "\<lparr>prog = p, description = cmd_description self, actions = [a],
       option_string_actions = [(''-h'', a), (''--help'', a)]\<rparr>"
  have "create_parser self p = add_options ?q (cmd_get_options self)"
    by (simp add: create_parser_def init)
  moreover have "parser_inv ?q" by (auto simp: parser_inv_def a)
  moreover have "fst ` set (option_string_actions ?q) = set [''-h'', ''--help'']" by auto
  moreover have "map option_strings (actions ?q) = [[''-h'', ''--help'']]" by (simp add: a)
  ultimately show ?thesis by (intro exI[of _ ?q]) simp
qed

lemma create_parser_Inr:
  assumes "create_parser self p = Inr parser"
  shows "parser_inv parser
    \<and> map option_strings (actions parser) =
          [''-h'', ''--help''] # map declared_strings (cmd_get_options self)
    \<and> description parser = cmd_description self
    \<and> prog parser = p"
proof -
  from create_parser_eq [of self p] obtain q
    where eq: "create_parser self p = add_options q (cmd_get_options self)"
      and inv: "parser_inv q"
      and keys: "fst ` set (option_string_actions q) = set [''-h'', ''--help'']"
      and acts: "map option_strings (actions q) = [[''-h'', ''--help'']]"
      and d: "description q = cmd_description self" and pr: "prog q = p"
    by (elim exE conjE)
  from assms eq have "add_options q (cmd_get_options self) = Inr parser" by simp
  from add_options_Inr[OF this inv] acts d pr show ?thesis by simp
qed

text \<open>
  Claim C5, as the code has it. When \<open>create_parser\<close> returns a parser, its description
  is the command's description and its actions are the automatic \<open>-h/--help\<close> action
  followed by one action per descriptor of \<open>get_options()\<close>, in declaration order; the
  option strings registered with the parser are those of these actions. When a descriptor
  reuses an option string registered before it, by \<open>-h/--help\<close> or by an earlier
  descriptor, \<open>create_parser\<close> raises and returns no parser, so there is no precedence
  between colliding descriptors; and when every descriptor is one that \<open>add_argument\<close>
  accepts by itself, what is raised is the conflict error \<open>ArgumentError\<close> with the reused
  option strings of the first such descriptor.
\<close>

theorem create_parser_help_then_declared:
  "(\<forall>parser. create_parser self p = Inr parser \<longrightarrow>
       description parser = cmd_description self
     \<and> map option_strings (actions parser) =
          [''-h'', ''--help''] # map declared_strings (cmd_get_options self)
     \<and> fst ` set (option_string_actions parser) =
          set (concat (map option_strings (actions parser))))
   \<and> (first_conflict [''-h'', ''--help''] (cmd_get_options self) \<noteq> [] \<longrightarrow>
        (\<exists>e. create_parser self p = Inl e))
   \<and> (list_all valid_option (cmd_get_options self)
        \<and> first_conflict [''-h'', ''--help''] (cmd_get_options self) \<noteq> [] \<longrightarrow>
        create_parser self p =
          Inl (ArgumentError (first_conflict [''-h'', ''--help''] (cmd_get_options self))))"
proof (intro conjI allI impI)
  fix parser assume ok: "create_parser self p = Inr parser"
  from create_parser_Inr[OF ok]
  show "description parser = cmd_description self"
    and "map option_strings (actions parser) =
          [''-h'', ''--help''] # map declared_strings (cmd_get_options self)"
    by simp_all
  from create_parser_Inr[OF ok] have "parser_inv parser" by blast
  then show "fst ` set (option_string_actions parser) =
          set (concat (map option_strings (actions parser)))"
    by (simp only: parser_inv_def)
next
  assume coll: "first_conflict [''-h'', ''--help''] (cmd_get_options self) \<noteq> []"
  from create_parser_eq [of self p] obtain q
    where eq: "create_parser self p = add_options q (cmd_get_options self)"
      and inv: "parser_inv q"
      and keys: "fst ` set (option_string_actions q) = set [''-h'', ''--help'']"
      and acts: "map option_strings (actions q) = [[''-h'', ''--help'']]"
      and d: "description q = cmd_description self" and pr: "prog q = p"
    by (elim exE conjE)
  show "\<exists>e. create_parser self p = Inl e"
  proof (cases "create_parser self p")
    case (Inl e)
    then show ?thesis by blast
  next
    case (Inr parser)
    with eq have "add_options q (cmd_get_options self) = Inr parser" by simp
    from add_options_Inr_no_conflict[OF this keys] coll show ?thesis by contradiction
  qed
next
  assume h: "list_all valid_option (cmd_get_options self)
        \<and> first_conflict [''-h'', ''--help''] (cmd_get_options self) \<noteq> []"
  from create_parser_eq [of self p] obtain q
    where eq: "create_parser self p = add_options q (cmd_get_options self)"
      and inv: "parser_inv q"
      and keys: "fst ` set (option_string_actions q) = set [''-h'', ''--help'']"
      and acts: "map option_strings (actions q) = [[''-h'', ''--help'']]"
      and d: "description q = cmd_description self" and pr: "prog q = p"
    by (elim exE conjE)
  from h have v: "list_all valid_option (cmd_get_options self)" by (rule conjunct1)
  from add_options_valid[OF v keys] h
  have "add_options q (cmd_get_options self) =
          Inl (ArgumentError (first_conflict [''-h'', ''--help''] (cmd_get_options self)))"
    by blast
  with eq show "create_parser self p =
          Inl (ArgumentError (first_conflict [''-h'', ''--help''] (cmd_get_options self)))"
    by simp
qed

theorem create_parser_help_then_declared_witness:
  "(\<exists>parser. create_parser \<lparr>cmd_description = ''demo'', cmd_get_options = Server_get_options default_Server\<rparr> ''manage.py'' = Inr parser
      \<and> description parser = ''demo''
      \<and> map option_strings (actions parser) =
          [[''-h'', ''--help''], [''-t'', ''--host''], [''-p'', ''--port''], [''--threaded''],
           [''--processes''], [''--passthrough-errors''], [''-d'', ''--no-debug''],
           [''-r'', ''--no-reload'']])
   \<and> list_all valid_option (cmd_get_options colliding_command)
   \<and> first_conflict [''-h'', ''--help''] (cmd_get_options colliding_command) = [''-d'']
   \<and> create_parser colliding_command ''manage.py'' = Inl (ArgumentError [''-d''])
   \<and> first_conflict [''-h'', ''--help''] (cmd_get_options bogus_colliding_command) \<noteq> []
   \<and> (\<exists>e. create_parser bogus_colliding_command ''manage.py'' = Inl e)"
proof -
  let ?c = "\<lparr>cmd_description = ''demo'', cmd_get_options = Server_get_options default_Server\<rparr>"
  have "\<exists>parser. create_parser ?c ''manage.py'' = Inr parser"
    by (simp add: create_parser_def ArgumentParser_init_def add_argument_def build_action_def
        construct_action_def class_keywords_def class_required_keywords_def class_nargs_def
        type_callable_def nargs_formats_def choices_format_def equals_zero_def is_positional_def
        prefix_char_def get_optional_kwargs_def kw_get_def infer_dest_def is_long_option_def
        pop_action_class_def registered_actions_def add_action_def check_conflict_def Let_def
        Server_get_options_def default_Server_def)
  then obtain parser where ok: "create_parser ?c ''manage.py'' = Inr parser" ..
  from create_parser_help_then_declared [of ?c "''manage.py''"] ok
  have "description parser = ''demo''"
    and "map option_strings (actions parser) =
          [''-h'', ''--help''] # map declared_strings (Server_get_options default_Server)"
    by simp_all
  then have f1: "description parser = ''demo''"
    and f2: "map option_strings (actions parser) =
          [[''-h'', ''--help''], [''-t'', ''--host''], [''-p'', ''--port''], [''--threaded''],
           [''--processes''], [''--passthrough-errors''], [''-d'', ''--no-debug''],
           [''-r'', ''--no-reload'']]"
    by (simp_all add: Server_get_options_def default_Server_def declared_strings_def
        is_positional_def prefix_char_def)
  have v: "list_all valid_option (cmd_get_options colliding_command)"
    by (simp add: colliding_command_def valid_option_def build_action_def
        construct_action_def class_keywords_def class_required_keywords_def class_nargs_def
        type_callable_def nargs_formats_def choices_format_def is_positional_def
        prefix_char_def get_optional_kwargs_def kw_get_def infer_dest_def is_long_option_def
        pop_action_class_def registered_actions_def Let_def)
  have c: "first_conflict [''-h'', ''--help''] (cmd_get_options colliding_command) = [''-d'']"
    by (simp add: colliding_command_def declared_strings_def is_positional_def prefix_char_def)
  from create_parser_help_then_declared [of colliding_command "''manage.py''"] v c
  have f3: "create_parser colliding_command ''manage.py'' = Inl (ArgumentError [''-d''])"
    by simp
  have b: "first_conflict [''-h'', ''--help''] (cmd_get_options bogus_colliding_command) \<noteq> []"
    by (simp add: bogus_colliding_command_def declared_strings_def is_positional_def
        prefix_char_def)
  with create_parser_help_then_declared [of bogus_colliding_command "''manage.py''"]
  have f4: "\<exists>e. create_parser bogus_colliding_command ''manage.py'' = Inl e" by blast
  show ?thesis
    using ok f1 f2 v c f3 b f4 by (intro conjI exI[of _ parser]) assumption+
qed

text \<open>
  The claim as the specification words it fails twice: for two descriptors that share
  \<open>-d\<close> the library's conflict handler raises, so neither descriptor wins; and a command
  that declares no option still gets a parser with \<open>-h\<close> and \<open>--help\<close> registered.
\<close>

theorem create_parser_collision_counterexample:
  "create_parser colliding_command ''manage.py'' = Inl (ArgumentError [''-d''])
   \<and> registered_flags (create_parser \<lparr>cmd_description = ''demo'', cmd_get_options = []\<rparr> ''manage.py'')
       = Some [''-h'', ''--help'']"
  by (simp add: create_parser_def ArgumentParser_init_def add_argument_def build_action_def
      construct_action_def class_keywords_def class_required_keywords_def class_nargs_def
      type_callable_def nargs_formats_def choices_format_def is_positional_def
      prefix_char_def get_optional_kwargs_def kw_get_def infer_dest_def is_long_option_def
      pop_action_class_def registered_actions_def add_action_def check_conflict_def Let_def
      colliding_command_def registered_flags_def class_default_def)

text \<open>A descriptor that is refused for another reason raises that error: with \<open>-d\<close>
  registered, a second \<open>-d\<close> with an unknown action raises \<open>ValueError\<close>, and a descriptor
  with a keyword its action class does not take raises \<open>TypeError\<close>.\<close>

lemma create_parser_invalid_descriptor:
  "create_parser bogus_colliding_command ''manage.py'' = Inl ValueError"
  "create_parser
     \<lparr>cmd_description = ''demo'',
      cmd_get_options = [\<lparr>args = [''--flag''],
                          kwargs = [(''action'', VStr ''store_true''), (''type'', VCallable ''int'')]\<rparr>]\<rparr>
     ''manage.py'' = Inl TypeError"
  by (simp_all add: create_parser_def ArgumentParser_init_def add_argument_def build_action_def
      construct_action_def class_keywords_def class_required_keywords_def class_nargs_def
      type_callable_def nargs_formats_def choices_format_def is_positional_def
      prefix_char_def get_optional_kwargs_def kw_get_def infer_dest_def is_long_option_def
      pop_action_class_def registered_actions_def add_action_def check_conflict_def Let_def
      bogus_colliding_command_def)

subsection \<open>Shell: parsed defaults and the chain of shells\<close>

lemma parse_Shell_no_flags:
  "\<exists>parser. create_parser (Shell_command self) p = Inr parser \<and>
     parse_args_empty call parser =
       Inr [(''no_ipython'', VBool (\<not> use_ipython self)), (''bpython'', VBool (\<not> use_bpython self))]"
  by (simp add: create_parser_def ArgumentParser_init_def add_argument_def build_action_def
        construct_action_def class_keywords_def class_required_keywords_def class_nargs_def
        class_default_def type_callable_def nargs_formats_def choices_format_def
        is_positional_def prefix_char_def get_optional_kwargs_def kw_get_def infer_dest_def
        is_long_option_def pop_action_class_def registered_actions_def add_action_def
        check_conflict_def Let_def Shell_command_def Shell_get_options_def parse_args_empty_def
        str_content_def)

lemma Shell_run_bpython_flag:
  "Shell_run self env n no_ipython True =
     (Inr (),
      if bpython_installed env
      then [FactoryCall n, FactoryCall (Suc n),
            BPythonEmbed (banner self) (make_context self (Suc n)),
            CodeInteract (banner self) (make_context self n)]
      else [FactoryCall n, CodeInteract (banner self) (make_context self n)])"
  by (simp add: Shell_run_def Let_def)

text \<open>
  Claim C10. For a Shell with the default preferences (\<open>use_ipython\<close> on, \<open>use_bpython\<close>
  off), the parser built from its options parses a command line without flags to
  \<open>no_ipython = False\<close> and \<open>bpython = True\<close>; \<open>run\<close> called with these values takes the
  BPython branch: it starts BPython when it is installed, and in no case IPython, whatever
  is installed.
\<close>

theorem Shell_default_no_flags_takes_bpython_branch:
  assumes "use_ipython self" and "\<not> use_bpython self"
  shows "(\<exists>parser. create_parser (Shell_command self) p = Inr parser \<and>
            parse_args_empty call parser =
              Inr [(''no_ipython'', VBool False), (''bpython'', VBool True)])
       \<and> Shell_run self env n False True =
           (Inr (),
            if bpython_installed env
            then [FactoryCall n, FactoryCall (Suc n),
                  BPythonEmbed (banner self) (make_context self (Suc n)),
                  CodeInteract (banner self) (make_context self n)]
            else [FactoryCall n, CodeInteract (banner self) (make_context self n)])"
proof
  from parse_Shell_no_flags [of self p call] assms
  show "\<exists>parser. create_parser (Shell_command self) p = Inr parser \<and>
            parse_args_empty call parser =
              Inr [(''no_ipython'', VBool False), (''bpython'', VBool True)]"
    by simp
  show "Shell_run self env n False True =
           (Inr (),
            if bpython_installed env
            then [FactoryCall n, FactoryCall (Suc n),
                  BPythonEmbed (banner self) (make_context self (Suc n)),
                  CodeInteract (banner self) (make_context self n)]
            else [FactoryCall n, CodeInteract (banner self) (make_context self n)])"
    by (rule Shell_run_bpython_flag)
qed

theorem Shell_default_no_flags_takes_bpython_branch_witness:
  "use_ipython (default_Shell (\<lambda>n. [(''app'', VStr ''app'')]))
   \<and> \<not> use_bpython (default_Shell (\<lambda>n. [(''app'', VStr ''app'')]))
   \<and> (\<exists>parser. create_parser (Shell_command (default_Shell (\<lambda>n. [(''app'', VStr ''app'')]))) ''manage.py shell''
                   = Inr parser \<and>
         parse_args_empty (\<lambda>f s. None) parser =
           Inr [(''no_ipython'', VBool False), (''bpython'', VBool True)])
   \<and> Shell_run (default_Shell (\<lambda>n. [(''app'', VStr ''app'')]))
        \<lparr>bpython_installed = True, ipython_installed = IPythonShell\<rparr> 0 False True =
       (Inr (),
        [FactoryCall 0, FactoryCall (Suc 0), BPythonEmbed '''' [(''app'', VStr ''app'')],
         CodeInteract '''' [(''app'', VStr ''app'')]])"
proof -
  let ?s = "default_Shell (\<lambda>n. [(''app'', VStr ''app'')])"
  have h: "use_ipython ?s" "\<not> use_bpython ?s"
    by (simp_all add: default_Shell_def)
  from Shell_default_no_flags_takes_bpython_branch
    [OF h, of "''manage.py shell''" "\<lambda>f s. None"
       "\<lparr>bpython_installed = True, ipython_installed = IPythonShell\<rparr>" 0] h
  show ?thesis by (simp add: default_Shell_def)
qed

text \<open>
  Claim C3, at the input where the code leaves the chain. With the \<open>bpython\<close> flag set and
  BPython installed, \<open>run\<close> starts BPython with the namespace of a second factory call and,
  when BPython ends, starts the baseline interpreter as well, with the first namespace.
\<close>

theorem Shell_run_bpython_then_baseline:
  "Shell_run counting_Shell \<lparr>bpython_installed = True, ipython_installed = IPythonMissing\<rparr>
       0 False True =
     (Inr (),
      [FactoryCall 0, FactoryCall 1, BPythonEmbed ''hi'' [(''calls'', VInt 1)],
       CodeInteract ''hi'' [(''calls'', VInt 0)]])"
  by (simp add: Shell_run_def counting_Shell_def Let_def)

text \<open>The rest of the chain: an alternate shell that cannot be imported never makes
  \<open>run\<close> raise, and IPython, once started, is the only shell.\<close>

lemma Shell_run_unavailable_falls_through:
  "\<not> bpython_installed env \<Longrightarrow> ipython_installed env = IPythonMissing \<Longrightarrow>
     Shell_run self env n no_ipython bpython =
       (Inr (), [FactoryCall n, CodeInteract (banner self) (make_context self n)])"
  by (simp add: Shell_run_def Let_def)

lemma Shell_run_ipython_returns:
  "ipython_installed env = IPythonShell \<Longrightarrow>
     Shell_run self env n False False =
       (Inr (), [FactoryCall n, IPShellEmbed (banner self) (make_context self n)])"
  by (simp add: Shell_run_def Let_def)

subsection \<open>The request context around \<open>run\<close>\<close>

text \<open>
  Claim C2. \<open>Command.handle\<close> enters the request context of \<open>app\<close> once before \<open>run\<close> is
  called (\<open>run\<close> sees \<open>app\<close> on top of the stack, one more entry and no more exits) and
  exits it once afterwards, on both paths: when \<open>run\<close> returns, \<open>handle\<close> returns its
  result; when \<open>run\<close> raises, the exception propagates, and the context is exited all the
  same.
\<close>

theorem Command_handle_enters_and_exits_once:
  "snd (Command_handle app run s) =
      s\<lparr>entered := Suc (entered s), exited := Suc (exited s)\<rparr>
   \<and> fst (Command_handle app run s) =
      (case run (s\<lparr>ctx_stack := app # ctx_stack s, entered := Suc (entered s)\<rparr>) of
         Inr v \<Rightarrow> Inr (Some v)
       | Inl e \<Rightarrow> Inl e)"
  by (simp add: Command_handle_def ctx_enter_def ctx_exit_def Let_def split: sum.splits)

lemma Command_handle_not_implemented:
  "Command_handle app Command_run \<lparr>ctx_stack = [], entered = 0, exited = 0\<rparr> =
     (Inl NotImplementedError, \<lparr>ctx_stack = [], entered = 1, exited = 1\<rparr>)"
  by (simp add: Command_handle_def Command_run_def ctx_enter_def ctx_exit_def)

subsection \<open>Starting the server\<close>

text \<open>
  Claim C6, as the code has it. \<open>Server.handle\<close> enters no request context. When none of
  the instance's extra server options is named like a keyword written in the call, it calls
  \<open>app.run\<close> once, with host, port, use_debugger, use_reloader, threaded, processes and
  passthrough_errors passed through, the extra options appended, and \<open>debug\<close> taken from
  the application's \<open>DEBUG\<close> configuration value when that key is present and from
  \<open>use_debugger\<close> otherwise. When an extra option repeats a written keyword, the call
  raises \<open>TypeError\<close> and \<open>app.run\<close> is not called.
\<close>

theorem Server_handle_runs_app_once:
  "(set (map fst (server_options self)) \<inter> set explicit_run_keywords = {} \<longrightarrow>
      Server_handle self app h p d r t n e s =
        (Inr (), s,
         [[(''host'', h), (''port'', p),
           (''debug'', case map_of (config app) ''DEBUG'' of Some v \<Rightarrow> v | None \<Rightarrow> d),
           (''use_debugger'', d), (''use_reloader'', r), (''threaded'', t),
           (''processes'', n), (''passthrough_errors'', e)] @ server_options self]))
   \<and> (set (map fst (server_options self)) \<inter> set explicit_run_keywords \<noteq> {} \<longrightarrow>
      Server_handle self app h p d r t n e s = (Inl TypeError, s, []))"
proof -
  have guard: "list_ex (\<lambda>k. k \<in> set explicit_run_keywords) (map fst (server_options self))
                 = (set (map fst (server_options self)) \<inter> set explicit_run_keywords \<noteq> {})"
    unfolding list_ex_iff by blast
  have written: "map fst [(''host'', h), (''port'', p),
           (''debug'', case map_of (config app) ''DEBUG'' of Some v \<Rightarrow> v | None \<Rightarrow> d),
           (''use_debugger'', d), (''use_reloader'', r), (''threaded'', t),
           (''processes'', n), (''passthrough_errors'', e)] = explicit_run_keywords"
    by (simp add: explicit_run_keywords_def)
  show ?thesis
    unfolding Server_handle_def Let_def written guard by simp
qed

theorem Server_handle_runs_app_once_witness:
  "Server_handle default_Server \<lparr>config = [(''DEBUG'', VBool False)]\<rparr>
       (VStr ''127.0.0.1'') (VInt 5000) (VBool True) (VBool True) (VBool False) (VInt 1) (VBool False)
       \<lparr>ctx_stack = [], entered = 0, exited = 0\<rparr> =
     (Inr (), \<lparr>ctx_stack = [], entered = 0, exited = 0\<rparr>,
      [[(''host'', VStr ''127.0.0.1''), (''port'', VInt 5000), (''debug'', VBool False),
        (''use_debugger'', VBool True), (''use_reloader'', VBool True), (''threaded'', VBool False),
        (''processes'', VInt 1), (''passthrough_errors'', VBool False)]])
   \<and> Server_handle (default_Server\<lparr>server_options := [(''ssl_context'', VStr ''adhoc'')]\<rparr>) \<lparr>config = []\<rparr>
       (VStr ''127.0.0.1'') (VInt 5000) (VBool True) (VBool True) (VBool False) (VInt 1) (VBool False)
       \<lparr>ctx_stack = [], entered = 0, exited = 0\<rparr> =
     (Inr (), \<lparr>ctx_stack = [], entered = 0, exited = 0\<rparr>,
      [[(''host'', VStr ''127.0.0.1''), (''port'', VInt 5000), (''debug'', VBool True),
        (''use_debugger'', VBool True), (''use_reloader'', VBool True), (''threaded'', VBool False),
        (''processes'', VInt 1), (''passthrough_errors'', VBool False),
        (''ssl_context'', VStr ''adhoc'')]])
   \<and> Server_handle (default_Server\<lparr>server_options := [(''debug'', VBool True)]\<rparr>) \<lparr>config = []\<rparr>
       (VStr ''127.0.0.1'') (VInt 5000) (VBool True) (VBool True) (VBool False) (VInt 1) (VBool False)
       \<lparr>ctx_stack = [], entered = 0, exited = 0\<rparr> =
     (Inl TypeError, \<lparr>ctx_stack = [], entered = 0, exited = 0\<rparr>, [])"
proof -
  let ?s = "\<lparr>ctx_stack = [], entered = 0, exited = 0\<rparr> :: Flask_app ctx_state"
  have a: "set (map fst (server_options default_Server)) \<inter> set explicit_run_keywords = {}"
    by (simp add: default_Server_def)
  have b: "set (map fst (server_options (default_Server\<lparr>server_options := [(''ssl_context'', VStr ''adhoc'')]\<rparr>)))
             \<inter> set explicit_run_keywords = {}"
    by (simp add: explicit_run_keywords_def)
  have c: "set (map fst (server_options (default_Server\<lparr>server_options := [(''debug'', VBool True)]\<rparr>)))
             \<inter> set explicit_run_keywords \<noteq> {}"
    by (simp add: explicit_run_keywords_def)
  from Server_handle_runs_app_once
         [of default_Server "\<lparr>config = [(''DEBUG'', VBool False)]\<rparr>" "VStr ''127.0.0.1''"
             "VInt 5000" "VBool True" "VBool True" "VBool False" "VInt 1" "VBool False" ?s] a
       Server_handle_runs_app_once
         [of "default_Server\<lparr>server_options := [(''ssl_context'', VStr ''adhoc'')]\<rparr>"
             "\<lparr>config = []\<rparr>" "VStr ''127.0.0.1''"
             "VInt 5000" "VBool True" "VBool True" "VBool False" "VInt 1" "VBool False" ?s] b
       Server_handle_runs_app_once
         [of "default_Server\<lparr>server_options := [(''debug'', VBool True)]\<rparr>"
             "\<lparr>config = []\<rparr>" "VStr ''127.0.0.1''"
             "VInt 5000" "VBool True" "VBool True" "VBool False" "VInt 1" "VBool False" ?s] c
  show ?thesis by (simp add: default_Server_def)
qed

text \<open>
  The claim as the specification words it fails for \<^verbatim>\<open>Server(debug=True)\<close>, whose extra
  options hold the key \<open>debug\<close>: \<open>handle\<close> raises and records no call of \<open>app.run\<close>.
\<close>

theorem Server_handle_debug_option_counterexample:
  "Server_handle (default_Server\<lparr>server_options := [(''debug'', VBool True)]\<rparr>) \<lparr>config = []\<rparr>
       (VStr ''127.0.0.1'') (VInt 5000) (VBool True) (VBool True) (VBool False) (VInt 1) (VBool False)
       \<lparr>ctx_stack = [], entered = 0, exited = 0\<rparr> =
     (Inl TypeError, \<lparr>ctx_stack = [], entered = 0, exited = 0\<rparr>, [])"
  by (simp add: Server_handle_def default_Server_def Let_def)

subsection \<open>Clean\<close>

lemma starts_with_iff: "starts_with p s \<longleftrightarrow> (\<exists>b. s = p @ b)"
  by (induction p s rule: starts_with.induct) auto

lemma substring_in_iff: "substring_in sub s \<longleftrightarrow> (\<exists>a b. s = a @ sub @ b)"
proof (induction s)
  case Nil
  then show ?case by auto
next
  case (Cons c cs)
  show ?case
  proof
    assume "substring_in sub (c # cs)"
    then consider "starts_with sub (c # cs)" | "substring_in sub cs" by auto
    then show "\<exists>a b. c # cs = a @ sub @ b"
    proof cases
      case 1
      then obtain b where "c # cs = sub @ b" by (auto simp: starts_with_iff)
      then have "c # cs = [] @ sub @ b" by simp
      then show ?thesis by blast
    next
      case 2
      with Cons obtain a b where "cs = a @ sub @ b" by blast
      then have "c # cs = (c # a) @ sub @ b" by simp
      then show ?thesis by blast
    qed
  next
    assume "\<exists>a b. c # cs = a @ sub @ b"
    then obtain a b where ab: "c # cs = a @ sub @ b" by blast
    show "substring_in sub (c # cs)"
    proof (cases a)
      case Nil
      with ab have "starts_with sub (c # cs)" by (auto simp: starts_with_iff)
      then show ?thesis by simp
    next
      case (Cons x a')
      with ab have "cs = a' @ sub @ b" by simp
      with Cons.IH have "substring_in sub cs" by blast
      then show ?thesis by simp
    qed
  qed
qed

lemma file_names_filter_keep:
  "file_names (filter keep_entry es) = filter (\<lambda>n. \<not> substring_in ''.pyc'' n) (file_names es)"
  by (induction es rule: file_names.induct) auto

lemma subdir_files_filter_keep: "subdir_files d (filter keep_entry es) = subdir_files d es"
  by (induction es rule: file_names.induct) auto

lemma subdir_dirs_filter_keep: "subdir_dirs d (filter keep_entry es) = subdir_dirs d es"
  by (induction es rule: file_names.induct) auto

lemma file_names_Clean_subdirs: "file_names (snd (Clean_subdirs d es)) = file_names es"
  by (induction es rule: file_names.induct) (auto simp: split_beta Let_def)

lemma Clean_files:
  "tree_files d (snd (Clean_walk d es)) = filter (\<lambda>df. \<not> is_pyc df) (tree_files d es)
     \<and> fst (Clean_walk d es) = map removing_line (filter is_pyc (tree_files d es))
     \<and> tree_dirs d (snd (Clean_walk d es)) = tree_dirs d es"
  "subdir_files d (snd (Clean_subdirs d es)) = filter (\<lambda>df. \<not> is_pyc df) (subdir_files d es)
     \<and> fst (Clean_subdirs d es) = map removing_line (filter is_pyc (subdir_files d es))
     \<and> subdir_dirs d (snd (Clean_subdirs d es)) = subdir_dirs d es"
proof (induction d es and d es rule: Clean_walk_Clean_subdirs.induct)
  case (1 dirpath es)
  then show ?case
    by (simp add: split_beta Let_def file_names_filter_keep subdir_files_filter_keep
        subdir_dirs_filter_keep file_names_Clean_subdirs filter_map comp_def is_pyc_def
        removing_line_def del: tree_files.simps(1) Clean_walk.simps)
      (simp add: split_beta Let_def file_names_filter_keep subdir_files_filter_keep
        subdir_dirs_filter_keep file_names_Clean_subdirs filter_map comp_def is_pyc_def
        removing_line_def)
next
  case (2 dirpath)
  then show ?case by simp
next
  case (3 dirpath n es)
  then show ?case by (simp add: split_beta Let_def)
next
  case (4 dirpath n sub es)
  note walk = "4.IH"(1) and rest = "4.IH"(2)[OF refl prod.collapse]
  from walk rest show ?case
    by (simp add: split_beta Let_def del: tree_files.simps Clean_walk.simps tree_dirs.simps)
qed

subsection \<open>ShowUrls\<close>

lemma decorate_Inr:
  "list_all (\<lambda>r. getattr r order \<noteq> None) rs \<Longrightarrow>
     decorate order rs = Inr (map (\<lambda>r. (order_key order r, r)) rs)"
  by (induction rs) (auto simp: order_key_def)

lemma decorate_Inl:
  "\<not> list_all (\<lambda>r. getattr r order \<noteq> None) rs \<Longrightarrow> decorate order rs = Inl (AttributeError order)"
  by (induction rs) (auto split: option.splits sum.splits)

lemma insort_key_decorated:
  "insort_key fst (k x, x) (map (\<lambda>r. (k r, r)) ys) = map (\<lambda>r. (k r, r)) (insort_key k x ys)"
  by (induction ys) auto

lemma sort_key_decorated:
  "sort_key fst (map (\<lambda>r. (k r, r)) rs) = map (\<lambda>r. (k r, r)) (sort_key k rs)"
  by (induction rs) (auto simp: insort_key_decorated)

lemma undecorate: "map snd (map (\<lambda>r. (k r, r)) rs) = rs"
  by (induction rs) auto

lemma ShowUrls_run_ok:
  assumes "list_all (\<lambda>r. getattr r order \<noteq> None) url_map"
  shows "ShowUrls_run order url_map =
     ([ljust 30 ''Rule'' @ '' '' @ ''Endpoint'', replicate 80 CHR ''-'']
        @ map url_row (sort_key (order_key order) url_map), Inr ())"
  by (simp add: ShowUrls_run_def decorate_Inr[OF assms] sort_key_decorated undecorate del: map_map)

lemma ShowUrls_run_err:
  assumes "\<not> list_all (\<lambda>r. getattr r order \<noteq> None) url_map"
  shows "ShowUrls_run order url_map =
     ([ljust 30 ''Rule'' @ '' '' @ ''Endpoint'', replicate 80 CHR ''-''], Inl (AttributeError order))"
  by (simp add: ShowUrls_run_def decorate_Inl[OF assms])

text \<open>
  Claim C4. \<open>Clean.run\<close> walks the tree below the current directory and deletes exactly the
  files whose name contains \<open>.pyc\<close>: the files left are the other files, in place; every
  directory is left; one line is printed for each deleted path, in the order of the walk.
  By \<open>substring_in_iff\<close> the test is containment of the substring. For the tree with
  \<open>a.pyc\<close>, \<open>b.txt\<close> and \<open>sub/c.pyc\<close> the two \<open>.pyc\<close> files go and \<open>b.txt\<close> stays.
\<close>

theorem Clean_run_deletes_exactly_pyc:
  "tree_files ''.'' (snd (Clean_run cwd)) = filter (\<lambda>df. \<not> is_pyc df) (tree_files ''.'' cwd)
   \<and> tree_dirs ''.'' (snd (Clean_run cwd)) = tree_dirs ''.'' cwd
   \<and> fst (Clean_run cwd) = map removing_line (filter is_pyc (tree_files ''.'' cwd))
   \<and> Clean_run [File ''a.pyc'', File ''b.txt'', Dir ''sub'' [File ''c.pyc'']] =
       ([''Removing ./a.pyc'', ''Removing ./sub/c.pyc''], [File ''b.txt'', Dir ''sub'' []])"
proof -
  have "Clean_run [File ''a.pyc'', File ''b.txt'', Dir ''sub'' [File ''c.pyc'']] =
       ([''Removing ./a.pyc'', ''Removing ./sub/c.pyc''], [File ''b.txt'', Dir ''sub'' []])"
    by (simp add: Clean_run_def path_join_def)
  with Clean_files(1) [of "''.''" cwd] show ?thesis
    unfolding Clean_run_def by blast
qed

text \<open>
  Claim C7. \<open>ShowUrls.run(order)\<close> prints the header and the separator line; when every
  entry of the route table has the attribute \<open>order\<close>, it then prints one fixed-width row
  (pattern, endpoint) per entry, the entries sorted by that attribute; when an entry lacks
  the attribute, it raises \<open>AttributeError\<close>.
\<close>

theorem ShowUrls_run_sorted_listing:
  "(list_all (\<lambda>r. getattr r order \<noteq> None) url_map \<longrightarrow>
      ShowUrls_run order url_map =
        ([ljust 30 ''Rule'' @ '' '' @ ''Endpoint'', replicate 80 CHR ''-'']
           @ map url_row (sort_key (order_key order) url_map), Inr ())
      \<and> sorted (map (order_key order) (sort_key (order_key order) url_map))
      \<and> mset (sort_key (order_key order) url_map) = mset url_map)
   \<and> (\<not> list_all (\<lambda>r. getattr r order \<noteq> None) url_map \<longrightarrow>
      ShowUrls_run order url_map =
        ([ljust 30 ''Rule'' @ '' '' @ ''Endpoint'', replicate 80 CHR ''-''],
         Inl (AttributeError order)))"
  using ShowUrls_run_ok [of order url_map] ShowUrls_run_err [of order url_map]
  by simp

text \<open>With the default key \<open>rule\<close> and the patterns \<open>/a\<close>, \<open>/c\<close>, \<open>/b\<close> the rows come out as
  \<open>/a\<close>, \<open>/b\<close>, \<open>/c\<close>; with a key that no entry has, only the header is printed.\<close>

theorem ShowUrls_run_sorted_listing_witness:
  "list_all (\<lambda>r. getattr r ''rule'' \<noteq> None) three_rules
   \<and> ShowUrls_run ''rule'' three_rules =
       ([''Rule                           Endpoint'', replicate 80 CHR ''-'',
         ''/a                             a'',
         ''/b                             b'',
         ''/c                             c''], Inr ())
   \<and> \<not> list_all (\<lambda>r. getattr r ''colour'' \<noteq> None) three_rules
   \<and> ShowUrls_run ''colour'' three_rules =
       ([''Rule                           Endpoint'', replicate 80 CHR ''-''],
        Inl (AttributeError ''colour''))"
proof -
  have a: "list_all (\<lambda>r. getattr r ''rule'' \<noteq> None) three_rules"
    by (simp add: three_rules_def getattr_def)
  have b: "\<not> list_all (\<lambda>r. getattr r ''colour'' \<noteq> None) three_rules"
    by (simp add: three_rules_def getattr_def)
  from ShowUrls_run_sorted_listing [of "''rule''" three_rules] a
  have "ShowUrls_run ''rule'' three_rules =
        ([ljust 30 ''Rule'' @ '' '' @ ''Endpoint'', replicate 80 CHR ''-'']
           @ map url_row (sort_key (order_key ''rule'') three_rules), Inr ())"
    by blast
  then have c: "ShowUrls_run ''rule'' three_rules =
       ([''Rule                           Endpoint'', replicate 80 CHR ''-'',
         ''/a                             a'',
         ''/b                             b'',
         ''/c                             c''], Inr ())"
    by (simp add: three_rules_def order_key_def getattr_def ljust_def url_row_def
        less_eq_char_def less_char_def eval_nat_numeral)
  from ShowUrls_run_sorted_listing [of "''colour''" three_rules] b
  have "ShowUrls_run ''colour'' three_rules =
        ([ljust 30 ''Rule'' @ '' '' @ ''Endpoint'', replicate 80 CHR ''-''],
         Inl (AttributeError ''colour''))"
    by blast
  then have d: "ShowUrls_run ''colour'' three_rules =
       ([''Rule                           Endpoint'', replicate 80 CHR ''-''],
        Inl (AttributeError ''colour''))"
    by (simp add: ljust_def eval_nat_numeral)
  from a b c d show ?thesis by (intro conjI) assumption+
qed

subsection \<open>The shared option list\<close>




end
